theory Spec2Isabelle
  imports Main "HOL-Library.Sublist"
begin

section \<open>The book table of \<open>library.py\<close>\<close>

text \<open>
  \<open>LibraryDB\<close> keeps one SQLite table, \<open>books\<close>, and every method opens the
  database, runs one statement and commits. The table is modelled as the list of its
  rows in insertion order together with the counter that \<open>AUTOINCREMENT\<close> keeps in
  \<open>sqlite_sequence\<close>. A column that may hold \<open>NULL\<close> is an \<open>option\<close>; \<open>title\<close> is
  declared \<open>NOT NULL\<close>. Python integers are unbounded, so ids and years are \<open>int\<close>;
  the 64-bit range of an SQLite \<open>INTEGER\<close> is outside this model. A character of a
  Python \<open>str\<close> is one \<open>char\<close>.
\<close>

record book =
  book_id :: int
  title :: string
  author :: "string option"
  year :: "int option"
  isbn :: "string option"
  status :: "string option"
  issued_to :: "string option"

record library =
  books :: "book list"
  seq :: int

definition empty_library :: library where
  "empty_library = \<lparr>books = [], seq = 0\<rparr>"

text \<open>The values a caller may pass as \<open>book_id\<close>: \<open>None\<close>, an integer or a string.\<close>

datatype pyval = PyNone | PyInt int | PyStr string

text \<open>
  The three \<open>ValueError\<close>s of the lending methods are told apart by their message:
  \<open>'Book not found'\<close>, \<open>'Book already issued'\<close>, \<open>'Book is not issued'\<close>.
  \<open>AttributeError\<close> is what \<open>None.strip()\<close> raises.
\<close>

datatype error = NotFound | AlreadyIssued | NotIssued | AttributeError

subsection \<open>Python's \<open>str.strip\<close>, \<open>int\<close> and \<open>str\<close> on integers\<close>

definition is_space :: "char \<Rightarrow> bool" where
  "is_space c = (of_char c \<in> {9, 10, 11, 12, 13, 28, 29, 30, 31, 32, 133, 160 :: nat})"

definition strip :: "string \<Rightarrow> string" where
  "strip s = rev (dropWhile is_space (rev (dropWhile is_space s)))"

definition is_digit :: "char \<Rightarrow> bool" where
  "is_digit c = (48 \<le> (of_char c :: nat) \<and> (of_char c :: nat) \<le> 57)"

definition digit_val :: "char \<Rightarrow> int" where
  "digit_val c = int (of_char c) - 48"

text \<open>
  The digits after the first one: a single underscore is allowed between two digits.
\<close>

fun parse_digits :: "int \<Rightarrow> string \<Rightarrow> int option" where
  "parse_digits acc [] = Some acc"
| "parse_digits acc [c] = (if is_digit c then Some (acc * 10 + digit_val c) else None)"
| "parse_digits acc (c # d # cs) =
     (if is_digit c then parse_digits (acc * 10 + digit_val c) (d # cs)
      else if c = CHR ''_'' \<and> is_digit d then parse_digits (acc * 10 + digit_val d) cs
      else None)"

definition parse_nat :: "string \<Rightarrow> int option" where
  "parse_nat s = (case s of [] \<Rightarrow> None
     | c # cs \<Rightarrow> if is_digit c then parse_digits (digit_val c) cs else None)"

text \<open>\<open>int(s)\<close> for a string: \<open>None\<close> stands for the \<open>ValueError\<close>.\<close>

definition py_int :: "string \<Rightarrow> int option" where
  "py_int s = (case strip s of [] \<Rightarrow> None
     | c # cs \<Rightarrow>
         if c = CHR ''-'' then map_option uminus (parse_nat cs)
         else if c = CHR ''+'' then parse_nat cs
         else parse_nat (c # cs))"

definition digit_char :: "nat \<Rightarrow> char" where
  "digit_char n = char_of (48 + n)"

fun nat_digits :: "nat \<Rightarrow> string" where
  "nat_digits n = (if n < 10 then [digit_char n] else nat_digits (n div 10) @ [digit_char (n mod 10)])"

declare nat_digits.simps [simp del]

text \<open>\<open>str(n)\<close> for an integer.\<close>

definition py_str :: "int \<Rightarrow> string" where
  "py_str i = (if i < 0 then CHR ''-'' # nat_digits (nat (- i)) else nat_digits (nat i))"

subsection \<open>The record store\<close>

text \<open>\<open>_to_int\<close>: \<open>int(val)\<close>, with every exception turned into \<open>None\<close>.\<close>

fun to_int :: "pyval \<Rightarrow> int option" where
  "to_int PyNone = None"
| "to_int (PyInt i) = Some i"
| "to_int (PyStr s) = py_int s"

text \<open>\<open>year or None\<close>: the integer 0 is falsy.\<close>

definition year_or_none :: "int option \<Rightarrow> int option" where
  "year_or_none y = (if y = Some 0 then None else y)"

text \<open>\<open>status or 'available'\<close>: \<open>None\<close> and the empty string are falsy.\<close>

definition status_or_available :: "string option \<Rightarrow> string option" where
  "status_or_available s = (if s = None \<or> s = Some [] then Some ''available'' else s)"

text \<open>
  The id that \<open>AUTOINCREMENT\<close> gives the next row: one more than the largest id the
  table has ever held.
\<close>

definition next_id :: "library \<Rightarrow> int" where
  "next_id db = fold max (map book_id (books db)) (seq db) + 1"

definition add_book :: "string \<Rightarrow> string option \<Rightarrow> int option \<Rightarrow> string option \<Rightarrow> library \<Rightarrow> int \<times> library" where
  "add_book t a y i db =
     (let n = next_id db in
      (n, \<lparr>books = books db @
             [\<lparr>book_id = n, title = t, author = a, year = year_or_none y, isbn = i,
               status = Some ''available'', issued_to = None\<rparr>],
           seq = n\<rparr>))"

definition update_book ::
  "pyval \<Rightarrow> string \<Rightarrow> string option \<Rightarrow> int option \<Rightarrow> string option \<Rightarrow> string option \<Rightarrow> string option
     \<Rightarrow> library \<Rightarrow> library" where
  "update_book bid t a y i st iss db =
     (case to_int bid of
        None \<Rightarrow> db
      | Some k \<Rightarrow>
          db\<lparr>books := map (\<lambda>b. if book_id b = k
                                then b\<lparr>title := t, author := a, year := year_or_none y, isbn := i,
                                       status := status_or_available st, issued_to := iss\<rparr>
                                else b) (books db)\<rparr>)"

definition delete_book :: "pyval \<Rightarrow> library \<Rightarrow> library" where
  "delete_book bid db =
     (case to_int bid of
        None \<Rightarrow> db
      | Some k \<Rightarrow> db\<lparr>books := filter (\<lambda>b. book_id b \<noteq> k) (books db)\<rparr>)"

definition get_book :: "pyval \<Rightarrow> library \<Rightarrow> book option" where
  "get_book bid db =
     (case to_int bid of
        None \<Rightarrow> None
      | Some k \<Rightarrow> find (\<lambda>b. book_id b = k) (books db))"

text \<open>\<open>list_all\<close>: every row, \<open>ORDER BY id\<close>.\<close>

definition list_all_rows :: "library \<Rightarrow> book list" where
  "list_all_rows db = sort_key book_id (books db)"

subsection \<open>Lending\<close>

text \<open>
  \<open>issue_book\<close> and \<open>return_book\<close> read the row, check its status and write the whole
  row back through \<open>update_book\<close>. The result pairs what the call raised or returned
  with the table it leaves.
\<close>

definition issue_book :: "pyval \<Rightarrow> string \<Rightarrow> library \<Rightarrow> (error + unit) \<times> library" where
  "issue_book bid who db =
     (case get_book bid db of
        None \<Rightarrow> (Inl NotFound, db)
      | Some b \<Rightarrow>
          if status b = Some ''issued'' then (Inl AlreadyIssued, db)
          else (Inr (), update_book (PyInt (book_id b)) (title b) (author b) (year b) (isbn b)
                          (Some ''issued'') (Some who) db))"

definition return_book :: "pyval \<Rightarrow> library \<Rightarrow> (error + unit) \<times> library" where
  "return_book bid db =
     (case get_book bid db of
        None \<Rightarrow> (Inl NotFound, db)
      | Some b \<Rightarrow>
          if status b = Some ''available'' then (Inl NotIssued, db)
          else (Inr (), update_book (PyInt (book_id b)) (title b) (author b) (year b) (isbn b)
                          (Some ''available'') None db))"

subsection \<open>Search\<close>







subsection \<open>Export\<close>

text \<open>
  \<open>csv.writer\<close> with the default dialect: a cell is quoted when it holds a comma, a
  double quote, a carriage return or a line feed, and a double quote inside it is
  doubled; a row that is one empty cell is written as two double quotes; each row ends
  with carriage return and line feed.
\<close>

definition CR :: char where "CR = char_of (13::nat)"
definition LF :: char where "LF = char_of (10::nat)"
definition DQ :: char where "DQ = char_of (34::nat)"

definition needs_quote :: "string \<Rightarrow> bool" where
  "needs_quote f = (\<exists>c \<in> set f. c = CHR '','' \<or> c = DQ \<or> c = CR \<or> c = LF)"

definition csv_field :: "string \<Rightarrow> string" where
  "csv_field f =
     (if needs_quote f then DQ # concat (map (\<lambda>c. if c = DQ then [DQ, DQ] else [c]) f) @ [DQ]
      else f)"

fun join_cells :: "string list \<Rightarrow> string" where
  "join_cells [] = []"
| "join_cells [f] = csv_field f"
| "join_cells (f # g # fs) = csv_field f @ CHR '','' # join_cells (g # fs)"

definition writerow :: "string list \<Rightarrow> string" where
  "writerow cells = (if cells = [[]] then [DQ, DQ] else join_cells cells) @ [CR, LF]"

text \<open>\<open>x or ''\<close> for a text column, and for the year, where 0 is falsy too.\<close>

definition or_empty :: "string option \<Rightarrow> string" where
  "or_empty v = (case v of None \<Rightarrow> [] | Some s \<Rightarrow> s)"

definition year_cell :: "int option \<Rightarrow> string" where
  "year_cell y = (case y of None \<Rightarrow> [] | Some n \<Rightarrow> if n = 0 then [] else py_str n)"

definition export_header :: "string list" where
  "export_header = [''id'', ''title'', ''author'', ''year'', ''isbn'', ''status'', ''issued_to'']"

definition export_row :: "book \<Rightarrow> string list" where
  "export_row b =
     [py_str (book_id b), or_empty (Some (title b)), or_empty (author b), year_cell (year b),
      or_empty (isbn b), or_empty (status b), or_empty (issued_to b)]"

text \<open>The text that \<open>export_csv_bytes\<close> encodes as UTF-8.\<close>

definition export_csv_bytes :: "library \<Rightarrow> string" where
  "export_csv_bytes db = concat (map writerow (export_header # map export_row (list_all_rows db)))"

subsection \<open>Import\<close>

text \<open>
  \<open>io.TextIOWrapper\<close> is opened without a \<open>newline\<close> argument, so it hands out lines
  in which a carriage return followed by a line feed, and a lone carriage return, have
  become a line feed.
\<close>

fun universal_newlines :: "string \<Rightarrow> string" where
  "universal_newlines [] = []"
| "universal_newlines [c] = [if c = CR then LF else c]"
| "universal_newlines (c # d # cs) =
     (if c = CR \<and> d = LF then LF # universal_newlines cs
      else if c = CR then LF # universal_newlines (d # cs)
      else c # universal_newlines (d # cs))"

text \<open>
  \<open>csv.reader\<close> with the default dialect, as a machine over the characters of the
  lines. A line feed outside a quoted cell ends the record; inside one it belongs to
  the cell. When the input ends inside a record, the record is returned as it stands.
\<close>

datatype rstate = StartRecord | StartField | InField | InQuoted | QuoteInQuoted

fun csv_reader :: "rstate \<Rightarrow> string list \<Rightarrow> string \<Rightarrow> string \<Rightarrow> string list list" where
  "csv_reader st fs f [] = (if st = StartRecord then [] else [fs @ [f]])"
| "csv_reader st fs f (c # cs) =
     (case st of
        StartRecord \<Rightarrow>
          if c = LF then [] # csv_reader StartRecord [] [] cs
          else if c = DQ then csv_reader InQuoted fs f cs
          else if c = CHR '','' then csv_reader StartField (fs @ [f]) [] cs
          else csv_reader InField fs (f @ [c]) cs
      | StartField \<Rightarrow>
          if c = LF then (fs @ [f]) # csv_reader StartRecord [] [] cs
          else if c = DQ then csv_reader InQuoted fs f cs
          else if c = CHR '','' then csv_reader StartField (fs @ [f]) [] cs
          else csv_reader InField fs (f @ [c]) cs
      | InField \<Rightarrow>
          if c = LF then (fs @ [f]) # csv_reader StartRecord [] [] cs
          else if c = CHR '','' then csv_reader StartField (fs @ [f]) [] cs
          else csv_reader InField fs (f @ [c]) cs
      | InQuoted \<Rightarrow>
          if c = DQ then csv_reader QuoteInQuoted fs f cs
          else csv_reader InQuoted fs (f @ [c]) cs
      | QuoteInQuoted \<Rightarrow>
          if c = DQ then csv_reader InQuoted fs (f @ [c]) cs
          else if c = CHR '','' then csv_reader StartField (fs @ [f]) [] cs
          else if c = LF then (fs @ [f]) # csv_reader StartRecord [] [] cs
          else csv_reader InField fs (f @ [c]) cs)"

definition read_rows :: "string \<Rightarrow> string list list" where
  "read_rows text = csv_reader StartRecord [] [] (universal_newlines text)"

text \<open>
  \<open>csv.DictReader\<close>: the first row names the columns; an empty row is skipped; a cell
  is stored under the name at its position, a later cell replacing an earlier one of
  the same name; a name that the row is too short for gets \<open>None\<close>. The cells beyond
  the names go under the key \<open>None\<close>, which no lookup here uses.
\<close>

type_synonym dict = "string \<rightharpoonup> string option"

definition make_dict :: "string list \<Rightarrow> string list \<Rightarrow> dict" where
  "make_dict names row =
     fold (\<lambda>k d. d(k \<mapsto> None)) (drop (length row) names)
       (fold (\<lambda>(k, v) d. d(k \<mapsto> Some v)) (zip names row) Map.empty)"

definition dict_reader :: "string list list \<Rightarrow> dict list" where
  "dict_reader rows =
     (case rows of [] \<Rightarrow> []
      | names # rest \<Rightarrow> map (make_dict names) (filter (\<lambda>r. r \<noteq> []) rest))"

text \<open>\<open>r.get(k, '')\<close>: the default is used only when the key is missing.\<close>

definition dict_get :: "dict \<Rightarrow> string \<Rightarrow> string option" where
  "dict_get d k = (case d k of None \<Rightarrow> Some [] | Some v \<Rightarrow> v)"

text \<open>
  The body of the loop of \<open>import_csv_fileobj\<close>. \<open>.strip()\<close> on \<open>None\<close> raises
  \<open>AttributeError\<close>; \<open>Inr True\<close> says that a row was added, \<open>Inr False\<close> that the
  loop went on without adding one.
\<close>

definition import_row :: "dict \<Rightarrow> library \<Rightarrow> (error + bool) \<times> library" where
  "import_row r db =
     (case dict_get r ''title'' of
        None \<Rightarrow> (Inl AttributeError, db)
      | Some t0 \<Rightarrow>
          if strip t0 = [] then (Inr False, db)
          else
            (case dict_get r ''author'' of
               None \<Rightarrow> (Inl AttributeError, db)
             | Some a0 \<Rightarrow>
                 (case dict_get r ''year'' of
                    None \<Rightarrow> (Inl AttributeError, db)
                  | Some y0 \<Rightarrow>
                      (case dict_get r ''isbn'' of
                         None \<Rightarrow> (Inl AttributeError, db)
                       | Some i0 \<Rightarrow>
                           (Inr True,
                            snd (add_book (strip t0) (Some (strip a0))
                                   (if strip y0 \<noteq> [] then py_int (strip y0) else None)
                                   (Some (strip i0)) db))))))"

fun import_loop :: "dict list \<Rightarrow> nat \<Rightarrow> library \<Rightarrow> (error + nat) \<times> library" where
  "import_loop [] added db = (Inr added, db)"
| "import_loop (r # rs) added db =
     (case import_row r db of
        (Inl e, db') \<Rightarrow> (Inl e, db')
      | (Inr b, db') \<Rightarrow> import_loop rs (if b then added + 1 else added) db')"

text \<open>The argument is the text that the stream decodes to.\<close>

definition import_csv_fileobj :: "string \<Rightarrow> library \<Rightarrow> (error + nat) \<times> library" where
  "import_csv_fileobj text db = import_loop (dict_reader (read_rows text)) 0 db"

subsection \<open>The core operations, and the states they reach\<close>

datatype operation =
    Add string "string option" "int option" "string option"
  | Update pyval string "string option" "int option" "string option" "string option" "string option"
  | Delete pyval
  | Issue pyval string
  | Return pyval
  | Import string

fun run_op :: "operation \<Rightarrow> library \<Rightarrow> library" where
  "run_op (Add t a y i) db = snd (add_book t a y i db)"
| "run_op (Update bid t a y i st iss) db = update_book bid t a y i st iss db"
| "run_op (Delete bid) db = delete_book bid db"
| "run_op (Issue bid who) db = snd (issue_book bid who db)"
| "run_op (Return bid) db = snd (return_book bid db)"
| "run_op (Import text) db = snd (import_csv_fileobj text db)"

inductive reachable :: "library \<Rightarrow> bool" where
  reachable_empty: "reachable empty_library"
| reachable_step: "reachable db \<Longrightarrow> reachable (run_op opn db)"

text \<open>The lending invariant of the specification, for every row of the table.\<close>

definition lending_inv :: "library \<Rightarrow> bool" where
  "lending_inv db = (\<forall>b \<in> set (books db). (status b = Some ''issued'') = (issued_to b \<noteq> None))"


text \<open>
  \<open>update_book\<close> stores the status and the borrower it is given. The two agree when
  the status it stores is \<open>issued\<close> exactly if a borrower is given.
\<close>

fun consistent :: "operation \<Rightarrow> bool" where
  "consistent (Update bid t a y i st iss) = ((status_or_available st = Some ''issued'') = (iss \<noteq> None))"
| "consistent _ = True"

subsection \<open>What the specification calls a case-insensitive substring\<close>




subsection \<open>The record an imported row becomes\<close>




text \<open>The record that a row written by the export comes back as.\<close>

definition reimported :: "int \<Rightarrow> book \<Rightarrow> book" where
  "reimported n b =
     \<lparr>book_id = n, title = title b, author = Some (or_empty (author b)), year = year b,
      isbn = Some (or_empty (isbn b)), status = Some ''available'', issued_to = None\<rparr>"

definition trimmed :: "string \<Rightarrow> bool" where
  "trimmed s = (strip s = s \<and> CR \<notin> set s)"

definition round_trips :: "book \<Rightarrow> bool" where
  "round_trips b =
     (title b \<noteq> [] \<and> trimmed (title b) \<and> trimmed (or_empty (author b)) \<and>
      trimmed (or_empty (isbn b)) \<and> year b \<noteq> Some 0)"

subsection \<open>Two callers of \<open>issue_book\<close>\<close>






subsection \<open>The catalog of the scenarios\<close>

definition dune :: book where
  "dune = \<lparr>book_id = 1, title = ''Dune'', author = Some ''Herbert'', year = Some 1965,
           isbn = Some ''123'', status = Some ''available'', issued_to = None\<rparr>"


definition shelf :: library where
  "shelf = \<lparr>books = [dune], seq = 1\<rparr>"




definition short_row_stream :: string where
  "short_row_stream =
     ''title,author,year,isbn'' @ [CR, LF] @ ''Dune,Herbert,1965,123'' @ [CR, LF] @
     ''Emma'' @ [CR, LF] @ ''Foundation,Asimov,1951,456'' @ [CR, LF]"

section \<open>Properties\<close>

subsection \<open>Rows and their ids\<close>









subsection \<open>Issue and return\<close>









subsection \<open>What the operations preserve\<close>

lemma import_row_cases:
  "snd (import_row r db) = db \<or> (\<exists>t a y i. snd (import_row r db) = snd (add_book t a y i db))"
  by (auto simp: import_row_def split: option.splits)

lemma import_loop_preserves:
  assumes step: "\<And>t a y i db. P db \<Longrightarrow> P (snd (add_book t a y i db))"
  shows "P db \<Longrightarrow> P (snd (import_loop rs n db))"
proof (induction rs arbitrary: n db)
  case Nil
  then show ?case by simp
next
  case (Cons r rs)
  from import_row_cases [of r db] Cons.prems step have p: "P (snd (import_row r db))"
    by auto
  show ?case
  proof (cases "import_row r db")
    case (Pair res db')
    with p have "P db'" by simp
    with Pair Cons.IH show ?thesis
      by (cases res) simp_all
  qed
qed













subsection \<open>Ids that match no row\<close>





subsection \<open>The year 0\<close>




subsection \<open>The lending invariant\<close>

lemma lending_inv_add: "lending_inv db \<Longrightarrow> lending_inv (snd (add_book t a y i db))"
  by (simp add: lending_inv_def add_book_def Let_def)

lemma lending_inv_update:
  assumes "lending_inv db" "(status_or_available st = Some ''issued'') = (iss \<noteq> None)"
  shows "lending_inv (update_book bid t a y i st iss db)"
proof (cases "to_int bid")
  case None
  with assms(1) show ?thesis by (simp add: update_book_def)
next
  case (Some k)
  have "(status r = Some ''issued'') = (issued_to r \<noteq> None)"
    if "r \<in> set (books (update_book bid t a y i st iss db))" for r
  proof -
    from that Some obtain b where b: "b \<in> set (books db)"
      and r: "r = (if book_id b = k
                   then b\<lparr>title := t, author := a, year := year_or_none y, isbn := i,
                          status := status_or_available st, issued_to := iss\<rparr> else b)"
      by (auto simp: update_book_def)
    from b assms(1) have "(status b = Some ''issued'') = (issued_to b \<noteq> None)"
      by (simp add: lending_inv_def)
    with r assms(2) show ?thesis by (cases "book_id b = k") simp_all
  qed
  then show ?thesis by (simp add: lending_inv_def)
qed

lemma lending_inv_delete: "lending_inv db \<Longrightarrow> lending_inv (delete_book bid db)"
  by (simp add: lending_inv_def delete_book_def split: option.splits)

lemma lending_inv_issue: "lending_inv db \<Longrightarrow> lending_inv (snd (issue_book bid who db))"
  by (simp add: issue_book_def lending_inv_update status_or_available_def split: option.splits)

lemma lending_inv_return: "lending_inv db \<Longrightarrow> lending_inv (snd (return_book bid db))"
  by (simp add: return_book_def lending_inv_update status_or_available_def split: option.splits)

lemma lending_inv_import: "lending_inv db \<Longrightarrow> lending_inv (snd (import_csv_fileobj text db))"
  unfolding import_csv_fileobj_def by (rule import_loop_preserves) (rule lending_inv_add)

lemma lending_inv_run_op: "consistent opn \<Longrightarrow> lending_inv db \<Longrightarrow> lending_inv (run_op opn db)"
  by (cases opn)
    (simp_all add: lending_inv_add lending_inv_update lending_inv_delete lending_inv_issue
      lending_inv_return lending_inv_import)

lemma lending_inv_fold:
  "\<forall>opn \<in> set ops. consistent opn \<Longrightarrow> lending_inv db \<Longrightarrow> lending_inv (fold run_op ops db)"
  by (induction ops arbitrary: db) (simp_all add: lending_inv_run_op)

lemma shelf_reachable: "reachable shelf"
proof -
  have "shelf = run_op (Add ''Dune'' (Some ''Herbert'') (Some 1965) (Some ''123'')) empty_library"
    by (simp add: shelf_def dune_def empty_library_def add_book_def next_id_def year_or_none_def)
  moreover have "reachable (run_op (Add ''Dune'' (Some ''Herbert'') (Some 1965) (Some ''123'')) empty_library)"
    by (rule reachable_step [OF reachable_empty])
  ultimately show ?thesis by (simp only:)
qed

text \<open>
  Claim C3, as stated, fails: \<open>update_book\<close> stores whatever status and borrower it is
  given, so from a table that the operations reach and that satisfies the invariant it
  reaches one with an issued row that has no borrower, and one with an available row
  that has a borrower.
\<close>

theorem lending_inv_update_counterexample:
  "reachable shelf \<and> lending_inv shelf \<and>
   reachable (run_op (Update (PyInt 1) ''Dune'' (Some ''Herbert'') (Some 1965) (Some ''123'')
                (Some ''issued'') None) shelf) \<and>
   \<not> lending_inv (run_op (Update (PyInt 1) ''Dune'' (Some ''Herbert'') (Some 1965) (Some ''123'')
                (Some ''issued'') None) shelf) \<and>
   \<not> lending_inv (run_op (Update (PyInt 1) ''Dune'' (Some ''Herbert'') (Some 1965) (Some ''123'')
                None (Some ''Bob'')) shelf)"
proof (intro conjI)
  show "reachable shelf" by (rule shelf_reachable)
  show "reachable (run_op (Update (PyInt 1) ''Dune'' (Some ''Herbert'') (Some 1965) (Some ''123'')
                (Some ''issued'') None) shelf)"
    by (rule reachable_step [OF shelf_reachable])
qed (simp_all add: lending_inv_def shelf_def dune_def update_book_def year_or_none_def
        status_or_available_def)

text \<open>
  Claim C3, amended. Adding, deleting, issuing, returning and importing keep the
  invariant for every argument, and \<open>update_book\<close> keeps it when the status it stores
  is \<open>issued\<close> exactly if it is given a borrower; so the invariant holds in every table
  reached from the empty one by such operations.
\<close>

theorem lending_inv_preserved:
  "(consistent opn \<and> lending_inv db \<longrightarrow> lending_inv (run_op opn db)) \<and>
   ((\<forall>opn \<in> set ops. consistent opn) \<longrightarrow> lending_inv (fold run_op ops empty_library))"
proof (intro conjI impI)
  assume "consistent opn \<and> lending_inv db"
  then show "lending_inv (run_op opn db)" by (simp add: lending_inv_run_op)
next
  have "lending_inv empty_library" by (simp add: lending_inv_def empty_library_def)
  moreover assume "\<forall>opn \<in> set ops. consistent opn"
  ultimately show "lending_inv (fold run_op ops empty_library)" by (simp add: lending_inv_fold)
qed

theorem lending_inv_preserved_witness:
  "consistent (Issue (PyInt 1) ''Alice'') \<and> lending_inv shelf \<and>
   lending_inv (run_op (Issue (PyInt 1) ''Alice'') shelf) \<and>
   lending_inv (fold run_op
     [Add ''Dune'' (Some ''Herbert'') (Some 1965) (Some ''123''), Issue (PyInt 1) ''Alice'',
      Update (PyInt 1) ''Dune'' None None None (Some ''issued'') (Some ''Bob''), Return (PyInt 1),
      Delete (PyInt 1)] empty_library)"
  using lending_inv_preserved [of "Issue (PyInt 1) ''Alice''" shelf
      "[Add ''Dune'' (Some ''Herbert'') (Some 1965) (Some ''123''), Issue (PyInt 1) ''Alice'',
        Update (PyInt 1) ''Dune'' None None None (Some ''issued'') (Some ''Bob''), Return (PyInt 1),
        Delete (PyInt 1)]"]
  by (simp add: lending_inv_def shelf_def dune_def status_or_available_def)

subsection \<open>Two callers\<close>







subsection \<open>Search\<close>














subsection \<open>Import\<close>













text \<open>
  Claim C7: the code at a stream whose second data row is shorter than the header.
  \<open>csv.DictReader\<close> stores \<open>None\<close> under the names the row is too short for, the
  default of \<open>r.get\<close> does not apply, and \<open>.strip()\<close> raises: the import ends with an
  \<open>AttributeError\<close> after the first row, and the third row is never read.
\<close>

theorem import_short_row_raises:
  "import_csv_fileobj short_row_stream empty_library = (Inl AttributeError, shelf)"
  by code_simp

end
